theory Spec2Isabelle
  imports Main "HOL-Library.Sublist"
begin

section \<open>Data model of \<open>lisa/platform_.py\<close>\<close>

text \<open>
  Python exceptions as values. \<open>LisaException\<close> carries its message.
  \<open>WaitMoreResourceError\<close> is the class declared in the module itself.
  \<open>Exception\<close> stands for any other subclass of Python's \<open>Exception\<close>;
  \<open>BaseException\<close> for a signal that derives from \<open>BaseException\<close> only
  (\<open>KeyboardInterrupt\<close>, \<open>SystemExit\<close>), which \<open>except Exception\<close> does not catch.
\<close>

datatype exn =
    LisaException string
  | AssertionError
  | NotImplementedError
  | WaitMoreResourceError
  | Exception string
  | BaseException string

fun is_Exception :: "exn \<Rightarrow> bool" where
  "is_Exception (BaseException _) = False"
| "is_Exception _ = True"

text \<open>
  Modelled from the spec: the enumeration \<open>EnvironmentStatus\<close> lives in
  \<open>lisa.environment\<close>; the module only names its members \<open>Prepared\<close>, \<open>Deployed\<close>
  and \<open>Deleted\<close>. The spec gives the states as Initialized, Prepared, Deployed, Deleted.
\<close>

datatype EnvironmentStatus = Initialized | Prepared | Deployed | Deleted

text \<open>
  The fields of \<open>schema.Platform\<close> that the module reads: the declared type name, the
  admin credentials and the retention flag.
\<close>

record schema_Platform =
  schema_type :: string
  admin_username :: string
  admin_password :: string
  admin_private_key_file :: string
  keep_environment :: string

text \<open>
  A \<open>Platform\<close> object: the data it holds. \<open>type_name\<close> is the class method of the
  concrete subclass, a constant of the instance. The methods a subclass overrides are
  kept apart, in \<open>platform_class\<close> below.
\<close>

record Platform =
  type_name :: string
  runbook :: schema_Platform

text \<open>
  Modelled from the spec: \<open>Features\<close> (\<open>lisa.feature\<close>) is constructed from a node and
  a platform; the value records the platform it was built with, the node being its owner.
\<close>

datatype Features = Features Platform

text \<open>
  Nodes: \<open>isinstance(node, RemoteNode)\<close> is the constructor test. A remote node carries
  its explicit connection settings, \<open>None\<close> where the node's own runbook gives none.
\<close>

datatype Node =
    LocalNode (features: "Features option")
  | RemoteNode (username: "string option") (password: "string option")
      (private_key_file: "string option") (features: "Features option")

fun is_RemoteNode :: "Node \<Rightarrow> bool" where
  "is_RemoteNode (RemoteNode _ _ _ _) = True"
| "is_RemoteNode (LocalNode _) = False"

fun set_features :: "Features option \<Rightarrow> Node \<Rightarrow> Node" where
  "set_features f (LocalNode _) = LocalNode f"
| "set_features f (RemoteNode u p k _) = RemoteNode u p k f"

text \<open>
  The attributes of \<open>Environment\<close> that the module touches. \<open>env_runbook\<close> is the text
  that \<open>environment.runbook\<close> renders to inside an f-string. \<open>platform\<close> is the
  back-reference to the owning platform, \<open>None\<close> until deploy binds it.
  \<open>is_closed\<close> records that \<open>close()\<close> has run.
\<close>

record Environment =
  name :: string
  env_runbook :: string
  nodes :: "Node list"
  status :: EnvironmentStatus
  platform :: "Platform option"
  is_closed :: bool

text \<open>
  Log records: level and message; \<open>Log_exception\<close> is \<open>Logger.exception\<close> with its
  \<open>exc_info\<close>.
\<close>

datatype log_record =
    Log_debug string
  | Log_info string
  | Log_exception string exn

text \<open>
  The mutable state an operation runs in: the environment object passed to it, the log,
  and the platform-side resources \<open>world\<close>, which only the subclass methods touch.
\<close>

record 'w state =
  env :: Environment
  logs :: "log_record list"
  world :: 'w

text \<open>
  The methods a concrete platform overrides (\<open>_prepare_environment\<close>,
  \<open>_deploy_environment\<close>, \<open>_delete_environment\<close>, \<open>_get_environment_information\<close>;
  an identifier cannot start with an underscore here, hence the prefix \<open>hook\<close>).
  Each receives \<open>self\<close> and the state, and either returns a value or raises, leaving
  the state as it mutated it.
\<close>

record 'w platform_class =
  hook_prepare_environment :: "Platform \<Rightarrow> 'w state \<Rightarrow> (exn + bool) \<times> 'w state"
  hook_deploy_environment :: "Platform \<Rightarrow> 'w state \<Rightarrow> (exn + unit) \<times> 'w state"
  hook_delete_environment :: "Platform \<Rightarrow> 'w state \<Rightarrow> (exn + unit) \<times> 'w state"
  hook_get_environment_information ::
    "Platform \<Rightarrow> 'w state \<Rightarrow> (exn + (string \<rightharpoonup> string)) \<times> 'w state"

text \<open>The base class: three methods raise \<open>NotImplementedError\<close>, the fourth returns \<open>{}\<close>.\<close>

definition Platform_base :: "'w platform_class" where
  "Platform_base =
     \<lparr> hook_prepare_environment = (\<lambda>self s. (Inl NotImplementedError, s)),
       hook_deploy_environment = (\<lambda>self s. (Inl NotImplementedError, s)),
       hook_delete_environment = (\<lambda>self s. (Inl NotImplementedError, s)),
       hook_get_environment_information = (\<lambda>self s. (Inr Map.empty, s)) \<rparr>"

definition log_append :: "log_record \<Rightarrow> 'w state \<Rightarrow> 'w state" where
  "log_append r s = s\<lparr>logs := logs s @ [r]\<rparr>"

section \<open>Collaborators outside the module\<close>

text \<open>
  Modelled from the spec: \<open>RemoteNode.set_connection_info_by_runbook\<close> (\<open>lisa.node\<close>)
  is a fill-if-absent merge of the default username, password and private-key-file into
  the node's connection settings, never an overwrite of an explicit per-node setting.
\<close>

fun fill_if_absent :: "string option \<Rightarrow> string \<Rightarrow> string option" where
  "fill_if_absent None d = Some d"
| "fill_if_absent (Some v) d = Some v"

fun set_connection_info_by_runbook :: "string \<Rightarrow> string \<Rightarrow> string \<Rightarrow> Node \<Rightarrow> Node" where
  "set_connection_info_by_runbook default_username default_password default_private_key_file
     (RemoteNode u p k f) =
     RemoteNode (fill_if_absent u default_username) (fill_if_absent p default_password)
       (fill_if_absent k default_private_key_file) f"
| "set_connection_info_by_runbook _ _ _ (LocalNode f) = LocalNode f"

text \<open>
  Modelled from the spec: \<open>Environment.close\<close> (\<open>lisa.environment\<close>) releases the
  connections and resources owned by the environment object itself.
\<close>

definition close :: "Environment \<Rightarrow> Environment" where
  "close e = e\<lparr>is_closed := True\<rparr>"

text \<open>
  Modelled from the spec: \<open>subclasses.Factory.create_by_runbook\<close> (\<open>lisa.util\<close>)
  resolves the declared type name against the closed set of registered implementations
  and constructs the instance, injecting the parsed configuration; an unknown type name
  is a fatal error. The registry maps a type name to the class registered under it.
\<close>

definition create_by_runbook ::
  "(string \<rightharpoonup> 'w platform_class) \<Rightarrow> schema_Platform \<Rightarrow> exn + ('w platform_class \<times> Platform)"
where
  "create_by_runbook registry rb =
     (case registry (schema_type rb) of
        None \<Rightarrow> Inl (LisaException (''cannot find subclass '' @ schema_type rb))
      | Some cls \<Rightarrow> Inr (cls, \<lparr>type_name = schema_type rb, runbook = rb\<rparr>))"

section \<open>The operations of \<open>Platform\<close>\<close>

definition get_environment_information ::
  "'w platform_class \<Rightarrow> Platform \<Rightarrow> 'w state \<Rightarrow> (exn + (string \<rightharpoonup> string)) \<times> 'w state"
where
  "get_environment_information cls self s =
     (case platform (env s) of
        None \<Rightarrow> (Inl AssertionError, s)
      | Some p \<Rightarrow>
          if type_name p \<noteq> type_name self then (Inr Map.empty, s)
          else
            let information = [''platform'' \<mapsto> type_name p] in
            (case hook_get_environment_information cls self s of
               (Inr d, s1) \<Rightarrow> (Inr (information ++ d), s1)
             | (Inl identifier, s1) \<Rightarrow>
                 if is_Exception identifier
                 then (Inr information,
                       log_append (Log_exception
                         ''failed to get environment information on platform'' identifier) s1)
                 else (Inl identifier, s1)))"

text \<open>
  The loop of \<open>prepare_environment\<close> over \<open>environment.nodes.list()\<close>: every
  \<open>RemoteNode\<close> is handed the admin credentials of the platform runbook as defaults.
\<close>

definition fill_connection_info :: "schema_Platform \<Rightarrow> Node list \<Rightarrow> Node list" where
  "fill_connection_info platform_runbook ns =
     map (\<lambda>node. if is_RemoteNode node
            then set_connection_info_by_runbook
                   (admin_username platform_runbook)
                   (admin_password platform_runbook)
                   (admin_private_key_file platform_runbook) node
            else node) ns"

definition prepare_environment ::
  "'w platform_class \<Rightarrow> Platform \<Rightarrow> 'w state \<Rightarrow> (exn + Environment) \<times> 'w state"
where
  "prepare_environment cls self s =
     (let platform_runbook = runbook self;
          s1 = s\<lparr>env := (env s)\<lparr>nodes :=
                 fill_connection_info platform_runbook (nodes (env s))\<rparr>\<rparr>
      in case hook_prepare_environment cls self s1 of
           (Inl e, s2) \<Rightarrow> (Inl e, s2)
         | (Inr is_success, s2) \<Rightarrow>
             if is_success
             then (let s3 = s2\<lparr>env := (env s2)\<lparr>status := Prepared\<rparr>\<rparr> in (Inr (env s3), s3))
             else (Inl (LisaException
                     (''no capability found for environment: '' @ env_runbook (env s2))), s2))"

text \<open>
  \<open>timer\<close> is the text the timer of \<open>create_timer()\<close> renders to when the last
  message is logged.
\<close>

definition deploy_environment ::
  "'w platform_class \<Rightarrow> Platform \<Rightarrow> string \<Rightarrow> 'w state \<Rightarrow> (exn + unit) \<times> 'w state"
where
  "deploy_environment cls self timer s =
     (let s1 = log_append (Log_info (''deploying environment: '' @ name (env s))) s;
          s2 = s1\<lparr>env := (env s1)\<lparr>platform := Some self\<rparr>\<rparr>
      in case hook_deploy_environment cls self s2 of
           (Inl e, s3) \<Rightarrow> (Inl e, s3)
         | (Inr _, s3) \<Rightarrow>
             (let s4 = s3\<lparr>env := (env s3)\<lparr>status := Deployed\<rparr>\<rparr>;
                  s5 = s4\<lparr>env := (env s4)\<lparr>nodes :=
                         map (set_features (Some (Features self))) (nodes (env s4))\<rparr>\<rparr>
              in (Inr (), log_append (Log_info (''deployed in '' @ timer)) s5)))"

text \<open>
  \<open>ENVIRONMENT_KEEP_ALWAYS\<close> is the constant of \<open>lisa.util.constants\<close> the retention
  flag is compared with; its value is declared outside the module, so it is a parameter.
\<close>

definition delete_environment ::
  "string \<Rightarrow> 'w platform_class \<Rightarrow> Platform \<Rightarrow> 'w state \<Rightarrow> (exn + unit) \<times> 'w state"
where
  "delete_environment ENVIRONMENT_KEEP_ALWAYS cls self s =
     (let s1 = s\<lparr>env := close (env s)\<rparr> in
      if keep_environment (runbook self) = ENVIRONMENT_KEEP_ALWAYS
      then
        (let s2 = log_append (Log_info (''skipped to delete environment '' @ name (env s1)
                     @ '', as runbook set to keep environment.'')) s1
         in (Inr (), s2\<lparr>env := (env s2)\<lparr>status := Deleted\<rparr>\<rparr>))
      else
        (let s2 = log_append (Log_debug ''deleting'') s1 in
         case hook_delete_environment cls self s2 of
           (Inl e, s3) \<Rightarrow> (Inl e, s3)
         | (Inr _, s3) \<Rightarrow>
             (let s4 = log_append (Log_debug ''deleted'') s3
              in (Inr (), s4\<lparr>env := (env s4)\<lparr>status := Deleted\<rparr>\<rparr>))))"

section \<open>\<open>load_platform\<close>\<close>

definition load_platform ::
  "(string \<rightharpoonup> 'w platform_class) \<Rightarrow> schema_Platform list \<Rightarrow> log_record list
     \<Rightarrow> (exn + ('w platform_class \<times> Platform)) \<times> log_record list"
where
  "load_platform registry platforms_runbook log =
     (let platform_count = length platforms_runbook in
      if platform_count \<noteq> 1
      then (Inl (LisaException ''There must be 1 and only 1 platform''), log)
      else
        (case create_by_runbook registry (platforms_runbook ! 0) of
           Inl e \<Rightarrow> (Inl e, log)
         | Inr default_platform \<Rightarrow>
             (Inr default_platform,
              log @ [Log_debug (''activated platform '' @ [CHR 0x27]
                       @ type_name (snd default_platform) @ [CHR 0x27])])))"

section \<open>Driving one environment through the operations\<close>

text \<open>
  A caller invokes the three operations on one environment, one after the other, and
  stops at the first one that raises. \<open>observed_statuses\<close> lists the status before the
  first call and after every call that returns; after a call that raises, the status is
  listed only if the call changed it.
\<close>

datatype operation = Prepare | Deploy | Delete

fun call ::
  "string \<Rightarrow> 'w platform_class \<Rightarrow> Platform \<Rightarrow> string \<Rightarrow> operation \<Rightarrow> 'w state
     \<Rightarrow> (exn + unit) \<times> 'w state"
where
  "call KEEP_ALWAYS cls self timer Prepare s =
     (case prepare_environment cls self s of
        (Inl e, s') \<Rightarrow> (Inl e, s')
      | (Inr _, s') \<Rightarrow> (Inr (), s'))"
| "call KEEP_ALWAYS cls self timer Deploy s = deploy_environment cls self timer s"
| "call KEEP_ALWAYS cls self timer Delete s = delete_environment KEEP_ALWAYS cls self s"

fun observed_statuses ::
  "string \<Rightarrow> 'w platform_class \<Rightarrow> Platform \<Rightarrow> string \<Rightarrow> operation list \<Rightarrow> 'w state
     \<Rightarrow> EnvironmentStatus list"
where
  "observed_statuses KEEP_ALWAYS cls self timer [] s = [status (env s)]"
| "observed_statuses KEEP_ALWAYS cls self timer (operation # ops) s =
     status (env s) #
       (case call KEEP_ALWAYS cls self timer operation s of
          (Inl e, s') \<Rightarrow> (if status (env s') = status (env s) then [] else [status (env s')])
        | (Inr _, s') \<Rightarrow> observed_statuses KEEP_ALWAYS cls self timer ops s')"

text \<open>
  The spec's single-writer rule as a property of a subclass method: it never sets
  \<open>environment.status\<close> itself.
\<close>

definition keeps_status :: "(Platform \<Rightarrow> 'w state \<Rightarrow> 'a \<times> 'w state) \<Rightarrow> bool" where
  "keeps_status h = (\<forall>self s. status (env (snd (h self s))) = status (env s))"

section \<open>Two concrete platforms and an environment\<close>

text \<open>
  \<open>simulated\<close> accepts every requirement and counts its teardowns in \<open>world\<close>;
  \<open>misbehaving\<close> reports infeasible and raises everywhere else.
\<close>

definition simulated :: "nat platform_class" where
  "simulated =
     \<lparr> hook_prepare_environment = (\<lambda>self s. (Inr True, s)),
       hook_deploy_environment = (\<lambda>self s. (Inr (), s)),
       hook_delete_environment = (\<lambda>self s. (Inr (), s\<lparr>world := Suc (world s)\<rparr>)),
       hook_get_environment_information = (\<lambda>self s. (Inr [''location'' \<mapsto> ''local''], s)) \<rparr>"

definition misbehaving :: "nat platform_class" where
  "misbehaving =
     \<lparr> hook_prepare_environment = (\<lambda>self s. (Inr False, s)),
       hook_deploy_environment = (\<lambda>self s. (Inl (Exception ''deploy failed''), s)),
       hook_delete_environment = (\<lambda>self s. (Inl (Exception ''teardown failed''), s)),
       hook_get_environment_information = (\<lambda>self s. (Inl (Exception ''no information''), s)) \<rparr>"

definition simulated_runbook :: schema_Platform where
  "simulated_runbook =
     \<lparr> schema_type = ''simulated'', admin_username = ''root'', admin_password = ''secret'',
       admin_private_key_file = ''id_rsa'', keep_environment = ''no'' \<rparr>"

definition simulated_platform :: Platform where
  "simulated_platform = \<lparr> type_name = ''simulated'', runbook = simulated_runbook \<rparr>"

definition keeping_platform :: Platform where
  "keeping_platform =
     \<lparr> type_name = ''simulated'', runbook = simulated_runbook\<lparr>keep_environment := ''always''\<rparr> \<rparr>"

definition other_platform :: Platform where
  "other_platform =
     \<lparr> type_name = ''other'', runbook = simulated_runbook\<lparr>schema_type := ''other''\<rparr> \<rparr>"

definition env0 :: Environment where
  "env0 =
     \<lparr> name = ''e1'', env_runbook = ''two remote nodes and a local one'',
       nodes = [RemoteNode None None None None,
                RemoteNode (Some ''alice'') (Some ''pw'') (Some ''alice_key'') None,
                LocalNode None],
       status = Initialized, platform = None, is_closed = False \<rparr>"

definition state0 :: "nat state" where
  "state0 = \<lparr> env = env0, logs = [], world = 0 \<rparr>"

definition deployed_state :: "Platform \<Rightarrow> nat state" where
  "deployed_state p = state0\<lparr>env := env0\<lparr>status := Deployed, platform := Some p\<rparr>\<rparr>"

definition prepared_state :: "nat state" where
  "prepared_state = state0\<lparr>env := env0\<lparr>status := Prepared\<rparr>\<rparr>"

lemmas fixtures = simulated_def misbehaving_def simulated_runbook_def simulated_platform_def
  keeping_platform_def other_platform_def env0_def state0_def deployed_state_def

section \<open>Environment information\<close>

text \<open>
  C10. Called on an environment whose owning-platform reference is unset,
  \<open>get_environment_information\<close> does not return an empty mapping: it raises
  \<open>AssertionError\<close>, whatever the class, before the identity filter and before the
  \<open>try\<close> block, so the state is untouched (nothing is logged, the gatherer is not
  run).
\<close>

theorem get_environment_information_unbound:
  "platform (env s) = None \<Longrightarrow> get_environment_information cls self s = (Inl AssertionError, s)"
  by (simp add: get_environment_information_def)

theorem get_environment_information_unbound_witness:
  "platform (env state0) = None \<and>
   get_environment_information simulated simulated_platform state0 = (Inl AssertionError, state0)"
  using get_environment_information_unbound [of state0 simulated simulated_platform]
  by (simp add: fixtures)

text \<open>
  C8. For an environment with an owning platform: when the owner's type name differs
  from the contributor's, the result is the empty mapping and nothing else happens; when
  it matches and the gatherer raises an \<open>Exception\<close>, the exception is logged, not
  propagated, and the call returns the mapping that holds the platform name.
\<close>

theorem get_environment_information_filter_and_swallow:
  assumes "platform (env s) = Some p"
  shows "(type_name p \<noteq> type_name self \<longrightarrow>
            get_environment_information cls self s = (Inr Map.empty, s)) \<and>
         (type_name p = type_name self \<longrightarrow>
            (\<forall>e s1. hook_get_environment_information cls self s = (Inl e, s1) \<longrightarrow> is_Exception e \<longrightarrow>
               get_environment_information cls self s =
                 (Inr [''platform'' \<mapsto> type_name self],
                  log_append (Log_exception
                    ''failed to get environment information on platform'' e) s1)))"
  using assms by (simp add: get_environment_information_def)

theorem get_environment_information_filter_and_swallow_witness:
  "platform (env (deployed_state other_platform)) = Some other_platform \<and>
   type_name other_platform \<noteq> type_name simulated_platform \<and>
   get_environment_information misbehaving simulated_platform (deployed_state other_platform) =
     (Inr Map.empty, deployed_state other_platform) \<and>
   platform (env (deployed_state simulated_platform)) = Some simulated_platform \<and>
   hook_get_environment_information misbehaving simulated_platform
       (deployed_state simulated_platform) =
     (Inl (Exception ''no information''), deployed_state simulated_platform) \<and>
   is_Exception (Exception ''no information'') \<and>
   get_environment_information misbehaving simulated_platform (deployed_state simulated_platform) =
     (Inr [''platform'' \<mapsto> ''simulated''],
      log_append (Log_exception ''failed to get environment information on platform''
        (Exception ''no information'')) (deployed_state simulated_platform))"
  using get_environment_information_filter_and_swallow
          [of "deployed_state other_platform" other_platform simulated_platform misbehaving]
        get_environment_information_filter_and_swallow
          [of "deployed_state simulated_platform" simulated_platform simulated_platform misbehaving]
  by (simp add: fixtures)

section \<open>Deleting an environment\<close>

text \<open>
  C7. When the retention flag of the platform runbook is the always-keep value,
  \<open>delete_environment\<close> returns normally with a state that does not depend on the
  class at all (the deletion routine is never invoked, the platform-side resources are
  as before), and the status is \<open>Deleted\<close>.
\<close>

theorem delete_environment_keep_always:
  assumes "keep_environment (runbook self) = KEEP_ALWAYS"
  shows "\<exists>s'. (\<forall>cls. delete_environment KEEP_ALWAYS cls self s = (Inr (), s')) \<and>
              status (env s') = Deleted \<and> world s' = world s \<and> is_closed (env s')"
  using assms by (simp add: delete_environment_def log_append_def close_def Let_def)

theorem delete_environment_keep_always_witness:
  "keep_environment (runbook keeping_platform) = ''always'' \<and>
   delete_environment ''always'' simulated keeping_platform (deployed_state keeping_platform) =
     delete_environment ''always'' misbehaving keeping_platform (deployed_state keeping_platform) \<and>
   fst (delete_environment ''always'' simulated keeping_platform (deployed_state keeping_platform))
     = Inr () \<and>
   status (env (snd (delete_environment ''always'' simulated keeping_platform
     (deployed_state keeping_platform)))) = Deleted \<and>
   world (snd (delete_environment ''always'' simulated keeping_platform
     (deployed_state keeping_platform))) = 0"
  using delete_environment_keep_always
          [of keeping_platform "''always''" "deployed_state keeping_platform"]
  by (auto simp add: fixtures)

text \<open>
  C5, as the code has it. The call of the deletion routine is not guarded: with a
  retention flag other than always-keep, an exception of the deletion routine leaves
  \<open>delete_environment\<close> as it is, with the state the routine left; nothing is logged
  about it and the status is not set to \<open>Deleted\<close>. Only the environment's own
  \<open>close()\<close> and the message \<open>deleting\<close> precede the routine.
\<close>

theorem delete_environment_teardown_failure_propagates:
  assumes "keep_environment (runbook self) \<noteq> KEEP_ALWAYS"
      and "hook_delete_environment cls self
             (log_append (Log_debug ''deleting'') (s\<lparr>env := close (env s)\<rparr>)) = (Inl e, s3)"
  shows "delete_environment KEEP_ALWAYS cls self s = (Inl e, s3)"
  using assms by (simp add: delete_environment_def Let_def)

theorem delete_environment_teardown_failure_propagates_witness:
  "keep_environment (runbook simulated_platform) \<noteq> ''always'' \<and>
   hook_delete_environment misbehaving simulated_platform
     (log_append (Log_debug ''deleting'')
        ((deployed_state simulated_platform)
           \<lparr>env := close (env (deployed_state simulated_platform))\<rparr>)) =
     (Inl (Exception ''teardown failed''),
      log_append (Log_debug ''deleting'')
        ((deployed_state simulated_platform)
           \<lparr>env := close (env (deployed_state simulated_platform))\<rparr>)) \<and>
   delete_environment ''always'' misbehaving simulated_platform
       (deployed_state simulated_platform) =
     (Inl (Exception ''teardown failed''),
      log_append (Log_debug ''deleting'')
        ((deployed_state simulated_platform)
           \<lparr>env := close (env (deployed_state simulated_platform))\<rparr>))"
  using delete_environment_teardown_failure_propagates
          [of simulated_platform "''always''" misbehaving "deployed_state simulated_platform"
              "Exception ''teardown failed''"
              "log_append (Log_debug ''deleting'')
                 ((deployed_state simulated_platform)
                    \<lparr>env := close (env (deployed_state simulated_platform))\<rparr>)"]
  by (simp add: fixtures)

text \<open>
  The claim C5 as stated fails: the teardown of \<open>misbehaving\<close> raises, the caller
  gets the exception, the status is still \<open>Deployed\<close> and the log holds no record of
  the failure.
\<close>

theorem delete_environment_teardown_failure_not_absorbed:
  "fst (delete_environment ''always'' misbehaving simulated_platform
          (deployed_state simulated_platform)) = Inl (Exception ''teardown failed'') \<and>
   status (env (snd (delete_environment ''always'' misbehaving simulated_platform
          (deployed_state simulated_platform)))) = Deployed \<and>
   logs (snd (delete_environment ''always'' misbehaving simulated_platform
          (deployed_state simulated_platform))) = [Log_debug ''deleting'']"
  by (simp add: delete_environment_def log_append_def close_def fixtures)

text \<open>
  C6, as the code has it. \<open>delete_environment\<close> never reads the status. After a first
  call that returned, the status is \<open>Deleted\<close>; a second call runs the same steps
  again: with the always-keep flag it returns normally and leaves the platform-side
  resources alone, otherwise it invokes the deletion routine once more, raises what the
  routine raises, and on its return sets \<open>Deleted\<close> again.
\<close>

theorem delete_environment_twice:
  assumes "delete_environment KEEP_ALWAYS cls self s = (Inr (), s1)"
  shows "status (env s1) = Deleted \<and>
         (keep_environment (runbook self) = KEEP_ALWAYS \<longrightarrow>
            (\<exists>s2. delete_environment KEEP_ALWAYS cls self s1 = (Inr (), s2) \<and>
                  world s2 = world s1 \<and> status (env s2) = Deleted)) \<and>
         (keep_environment (runbook self) \<noteq> KEEP_ALWAYS \<longrightarrow>
            delete_environment KEEP_ALWAYS cls self s1 =
              (case hook_delete_environment cls self
                      (log_append (Log_debug ''deleting'') (s1\<lparr>env := close (env s1)\<rparr>)) of
                 (Inl e, s3) \<Rightarrow> (Inl e, s3)
               | (Inr u, s3) \<Rightarrow>
                   (Inr (), (log_append (Log_debug ''deleted'') s3)
                      \<lparr>env := (env s3)\<lparr>status := Deleted\<rparr>\<rparr>)))"
  using assms
  by (auto simp add: delete_environment_def log_append_def close_def Let_def
           split: if_splits prod.splits sum.splits)

theorem delete_environment_twice_witness:
  "delete_environment ''always'' simulated simulated_platform (deployed_state simulated_platform) =
     (Inr (), snd (delete_environment ''always'' simulated simulated_platform
                     (deployed_state simulated_platform))) \<and>
   keep_environment (runbook simulated_platform) \<noteq> ''always'' \<and>
   status (env (snd (delete_environment ''always'' simulated simulated_platform
                     (deployed_state simulated_platform)))) = Deleted \<and>
   fst (delete_environment ''always'' simulated simulated_platform
     (snd (delete_environment ''always'' simulated simulated_platform
             (deployed_state simulated_platform)))) = Inr () \<and>
   delete_environment ''always'' simulated keeping_platform (deployed_state keeping_platform) =
     (Inr (), snd (delete_environment ''always'' simulated keeping_platform
                     (deployed_state keeping_platform))) \<and>
   keep_environment (runbook keeping_platform) = ''always'' \<and>
   world (snd (delete_environment ''always'' simulated keeping_platform
     (snd (delete_environment ''always'' simulated keeping_platform
             (deployed_state keeping_platform))))) = 0"
  using delete_environment_twice
          [of "''always''" simulated simulated_platform "deployed_state simulated_platform"
              "snd (delete_environment ''always'' simulated simulated_platform
                     (deployed_state simulated_platform))"]
        delete_environment_twice
          [of "''always''" simulated keeping_platform "deployed_state keeping_platform"
              "snd (delete_environment ''always'' simulated keeping_platform
                     (deployed_state keeping_platform))"]
  by (simp add: delete_environment_def log_append_def close_def fixtures)

text \<open>
  The claim C6 as stated fails: the teardown counter of \<open>simulated\<close> is 1 after the
  first delete and 2 after the second, so the second call is not a no-op on the
  platform's resources.
\<close>

theorem delete_environment_second_call_repeats_teardown:
  "fst (delete_environment ''always'' simulated simulated_platform
          (deployed_state simulated_platform)) = Inr () \<and>
   status (env (snd (delete_environment ''always'' simulated simulated_platform
          (deployed_state simulated_platform)))) = Deleted \<and>
   world (snd (delete_environment ''always'' simulated simulated_platform
          (deployed_state simulated_platform))) = 1 \<and>
   world (snd (delete_environment ''always'' simulated simulated_platform
          (snd (delete_environment ''always'' simulated simulated_platform
             (deployed_state simulated_platform))))) = 2"
  by (simp add: delete_environment_def log_append_def close_def fixtures)

section \<open>Loading the platform\<close>

text \<open>
  C2. \<open>load_platform\<close> raises the fatal \<open>LisaException\<close> whenever the list of
  platform runbooks does not hold exactly one record. For a single record, the factory
  decides: a type name that is not registered is a fatal error, a registered one yields
  one platform of the class registered under that name, whose type name is the declared
  one and whose runbook is the record.
\<close>

theorem load_platform_cardinality_and_type:
  "(length platforms_runbook \<noteq> 1 \<longrightarrow>
      load_platform registry platforms_runbook log =
        (Inl (LisaException ''There must be 1 and only 1 platform''), log)) \<and>
   (\<forall>rb. platforms_runbook = [rb] \<longrightarrow>
      (case registry (schema_type rb) of
         None \<Rightarrow> (\<exists>e. load_platform registry platforms_runbook log = (Inl e, log))
       | Some cls \<Rightarrow>
           (\<exists>p log'. load_platform registry platforms_runbook log = (Inr (cls, p), log') \<and>
              type_name p = schema_type rb \<and> runbook p = rb)))"
  by (auto simp add: load_platform_def create_by_runbook_def Let_def split: option.splits)

theorem load_platform_cardinality_and_type_witness:
  "length ([] :: schema_Platform list) \<noteq> 1 \<and>
   load_platform [''simulated'' \<mapsto> simulated] [] [] =
     (Inl (LisaException ''There must be 1 and only 1 platform''), []) \<and>
   length [simulated_runbook, simulated_runbook] \<noteq> 1 \<and>
   load_platform [''simulated'' \<mapsto> simulated] [simulated_runbook, simulated_runbook] [] =
     (Inl (LisaException ''There must be 1 and only 1 platform''), []) \<and>
   fst (load_platform [''simulated'' \<mapsto> simulated] [simulated_runbook] []) =
     Inr (simulated, simulated_platform) \<and>
   fst (load_platform [''simulated'' \<mapsto> simulated]
          [simulated_runbook\<lparr>schema_type := ''unknown''\<rparr>] []) =
     Inl (LisaException ''cannot find subclass unknown'')"
  using load_platform_cardinality_and_type [of "[]" "[''simulated'' \<mapsto> simulated]" "[]"]
        load_platform_cardinality_and_type
          [of "[simulated_runbook, simulated_runbook]" "[''simulated'' \<mapsto> simulated]" "[]"]
        load_platform_cardinality_and_type
          [of "[simulated_runbook]" "[''simulated'' \<mapsto> simulated]" "[]"]
        load_platform_cardinality_and_type
          [of "[simulated_runbook\<lparr>schema_type := ''unknown''\<rparr>]"
              "[''simulated'' \<mapsto> simulated]" "[]"]
  by (simp add: load_platform_def create_by_runbook_def simulated_runbook_def
        simulated_platform_def)

section \<open>Preparing an environment\<close>

text \<open>
  C3. Let the negotiation (\<open>_prepare_environment\<close>, run on the environment with its
  connection defaults filled) leave the status alone and not raise the capability error
  itself. Then \<open>prepare_environment\<close> raises the capability error if and only if the
  negotiation returns \<open>False\<close>; in that case the status is unchanged, and when the
  negotiation returns \<open>True\<close> the environment is returned with status \<open>Prepared\<close>.
\<close>

theorem prepare_environment_capability_error:
  assumes "hook_prepare_environment cls self
             (s\<lparr>env := (env s)\<lparr>nodes :=
                fill_connection_info (runbook self) (nodes (env s))\<rparr>\<rparr>) = (hr, s2)"
      and "status (env s2) = status (env s)"
      and "hr \<noteq> Inl (LisaException
                  (''no capability found for environment: '' @ env_runbook (env s2)))"
  shows "(fst (prepare_environment cls self s) =
            Inl (LisaException (''no capability found for environment: '' @ env_runbook (env s2)))
          \<longleftrightarrow> hr = Inr False) \<and>
         (hr = Inr False \<longrightarrow>
            status (env (snd (prepare_environment cls self s))) = status (env s)) \<and>
         (hr = Inr True \<longrightarrow>
            fst (prepare_environment cls self s) = Inr (env (snd (prepare_environment cls self s)))
            \<and> status (env (snd (prepare_environment cls self s))) = Prepared)"
  using assms
  by (cases hr) (auto simp add: prepare_environment_def Let_def)

theorem prepare_environment_capability_error_witness:
  "hook_prepare_environment misbehaving simulated_platform
     (state0\<lparr>env := (env state0)\<lparr>nodes :=
        fill_connection_info (runbook simulated_platform) (nodes (env state0))\<rparr>\<rparr>) =
     (Inr False, state0\<lparr>env := (env state0)\<lparr>nodes :=
        fill_connection_info (runbook simulated_platform) (nodes (env state0))\<rparr>\<rparr>) \<and>
   fst (prepare_environment misbehaving simulated_platform state0) =
     Inl (LisaException
       ''no capability found for environment: two remote nodes and a local one'') \<and>
   status (env (snd (prepare_environment misbehaving simulated_platform state0))) = Initialized \<and>
   hook_prepare_environment simulated simulated_platform
     (state0\<lparr>env := (env state0)\<lparr>nodes :=
        fill_connection_info (runbook simulated_platform) (nodes (env state0))\<rparr>\<rparr>) =
     (Inr True, state0\<lparr>env := (env state0)\<lparr>nodes :=
        fill_connection_info (runbook simulated_platform) (nodes (env state0))\<rparr>\<rparr>) \<and>
   status (env (snd (prepare_environment simulated simulated_platform state0))) = Prepared"
  using prepare_environment_capability_error
          [of misbehaving simulated_platform state0 "Inr False"
              "state0\<lparr>env := (env state0)\<lparr>nodes :=
                 fill_connection_info (runbook simulated_platform) (nodes (env state0))\<rparr>\<rparr>"]
        prepare_environment_capability_error
          [of simulated simulated_platform state0 "Inr True"
              "state0\<lparr>env := (env state0)\<lparr>nodes :=
                 fill_connection_info (runbook simulated_platform) (nodes (env state0))\<rparr>\<rparr>"]
  by (simp add: fixtures)

lemma fill_connection_info_length:
  "length (fill_connection_info rb ns) = length ns"
  by (simp add: fill_connection_info_def)

lemma fill_connection_info_nth:
  "i < length ns \<Longrightarrow>
   fill_connection_info rb ns ! i =
     (case ns ! i of
        LocalNode f \<Rightarrow> LocalNode f
      | RemoteNode u p k f \<Rightarrow>
          RemoteNode (Some (case u of None \<Rightarrow> admin_username rb | Some v \<Rightarrow> v))
                     (Some (case p of None \<Rightarrow> admin_password rb | Some v \<Rightarrow> v))
                     (Some (case k of None \<Rightarrow> admin_private_key_file rb | Some v \<Rightarrow> v)) f)"
  by (cases "ns ! i") (auto simp add: fill_connection_info_def split: option.splits)

lemma prepare_environment_nodes:
  assumes "nodes (env (snd (hook_prepare_environment cls self
             (s\<lparr>env := (env s)\<lparr>nodes :=
                fill_connection_info (runbook self) (nodes (env s))\<rparr>\<rparr>)))) =
           fill_connection_info (runbook self) (nodes (env s))"
  shows "nodes (env (snd (prepare_environment cls self s))) =
           fill_connection_info (runbook self) (nodes (env s))"
proof -
  let ?s1 = "s\<lparr>env := (env s)\<lparr>nodes := fill_connection_info (runbook self) (nodes (env s))\<rparr>\<rparr>"
  obtain hr s2 where h: "hook_prepare_environment cls self ?s1 = (hr, s2)"
    by (cases "hook_prepare_environment cls self ?s1")
  with assms have "nodes (env s2) = fill_connection_info (runbook self) (nodes (env s))"
    by simp
  with h show ?thesis
    by (cases hr) (simp_all add: prepare_environment_def Let_def)
qed

text \<open>
  C9. Let the negotiation leave the node list as it received it. After
  \<open>prepare_environment\<close>, whether it returned or raised, the node list has its old
  length; a remote node with no explicit credentials holds the platform runbook's admin
  username, password and private-key-file; a remote node with all three explicit is
  unchanged; field by field, an explicit setting is kept and an absent one is filled;
  a local node is untouched.
\<close>

theorem prepare_environment_fills_credentials:
  assumes "nodes (env (snd (hook_prepare_environment cls self
             (s\<lparr>env := (env s)\<lparr>nodes :=
                fill_connection_info (runbook self) (nodes (env s))\<rparr>\<rparr>)))) =
           fill_connection_info (runbook self) (nodes (env s))"
      and "i < length (nodes (env s))"
  shows "length (nodes (env (snd (prepare_environment cls self s)))) = length (nodes (env s)) \<and>
         (\<forall>f. nodes (env s) ! i = RemoteNode None None None f \<longrightarrow>
            nodes (env (snd (prepare_environment cls self s))) ! i =
              RemoteNode (Some (admin_username (runbook self)))
                         (Some (admin_password (runbook self)))
                         (Some (admin_private_key_file (runbook self))) f) \<and>
         (\<forall>u p k f. nodes (env s) ! i = RemoteNode (Some u) (Some p) (Some k) f \<longrightarrow>
            nodes (env (snd (prepare_environment cls self s))) ! i = nodes (env s) ! i) \<and>
         (\<forall>u p k f. nodes (env s) ! i = RemoteNode u p k f \<longrightarrow>
            nodes (env (snd (prepare_environment cls self s))) ! i =
              RemoteNode (Some (case u of None \<Rightarrow> admin_username (runbook self) | Some v \<Rightarrow> v))
                         (Some (case p of None \<Rightarrow> admin_password (runbook self) | Some v \<Rightarrow> v))
                         (Some (case k of None \<Rightarrow> admin_private_key_file (runbook self)
                                | Some v \<Rightarrow> v)) f) \<and>
         (\<forall>f. nodes (env s) ! i = LocalNode f \<longrightarrow>
            nodes (env (snd (prepare_environment cls self s))) ! i = LocalNode f)"
  using fill_connection_info_nth [OF assms(2), of "runbook self"]
  by (simp add: prepare_environment_nodes [OF assms(1)] fill_connection_info_length)

theorem prepare_environment_fills_credentials_witness:
  "nodes (env (snd (hook_prepare_environment simulated simulated_platform
      (state0\<lparr>env := (env state0)\<lparr>nodes :=
         fill_connection_info (runbook simulated_platform) (nodes (env state0))\<rparr>\<rparr>)))) =
     fill_connection_info (runbook simulated_platform) (nodes (env state0)) \<and>
   (0::nat) < length (nodes (env state0)) \<and> (1::nat) < length (nodes (env state0)) \<and>
   nodes (env state0) ! 0 = RemoteNode None None None None \<and>
   nodes (env (snd (prepare_environment simulated simulated_platform state0))) ! 0 =
     RemoteNode (Some ''root'') (Some ''secret'') (Some ''id_rsa'') None \<and>
   nodes (env state0) ! 1 = RemoteNode (Some ''alice'') (Some ''pw'') (Some ''alice_key'') None \<and>
   nodes (env (snd (prepare_environment simulated simulated_platform state0))) ! 1 =
     RemoteNode (Some ''alice'') (Some ''pw'') (Some ''alice_key'') None"
  using prepare_environment_fills_credentials [of simulated simulated_platform state0 0]
        prepare_environment_fills_credentials [of simulated simulated_platform state0 1]
  by (simp add: prepare_environment_def fill_connection_info_def Let_def fixtures)

section \<open>Deploying an environment\<close>

lemma set_features_features: "features (set_features f n) = f"
  by (cases n) simp_all

text \<open>
  C4. The deploy routine runs on a state whose environment already refers to the
  platform: a routine that first asserts \<open>environment.platform\<close> to be \<open>self\<close>
  behaves as the routine without the assertion. If the routine raises, the exception is
  the outcome of \<open>deploy_environment\<close> and the state is as the routine left it, so a
  status \<open>Prepared\<close> stays \<open>Prepared\<close>. If it returns, the outcome is normal, the
  status is \<open>Deployed\<close>, and every node of the environment carries a feature set
  built with this platform.
\<close>

theorem deploy_environment_protocol:
  assumes "hook_deploy_environment cls self
             ((log_append (Log_info (''deploying environment: '' @ name (env s))) s)
                \<lparr>env := (env s)\<lparr>platform := Some self\<rparr>\<rparr>) = (hr, s3)"
  shows "deploy_environment
           (cls\<lparr>hook_deploy_environment :=
                  (\<lambda>slf st. if platform (env st) = Some slf
                             then hook_deploy_environment cls slf st
                             else (Inl AssertionError, st))\<rparr>) self timer s =
           deploy_environment cls self timer s \<and>
         (\<forall>e. hr = Inl e \<longrightarrow> deploy_environment cls self timer s = (Inl e, s3)) \<and>
         (\<forall>e. hr = Inl e \<longrightarrow> status (env s3) = Prepared \<longrightarrow>
            status (env (snd (deploy_environment cls self timer s))) = Prepared) \<and>
         (hr = Inr () \<longrightarrow>
            fst (deploy_environment cls self timer s) = Inr () \<and>
            status (env (snd (deploy_environment cls self timer s))) = Deployed \<and>
            nodes (env (snd (deploy_environment cls self timer s))) =
              map (set_features (Some (Features self))) (nodes (env s3)) \<and>
            (\<forall>node \<in> set (nodes (env (snd (deploy_environment cls self timer s)))).
               features node = Some (Features self)))"
  using assms
  by (cases hr) (simp_all add: deploy_environment_def Let_def log_append_def set_features_features)

theorem deploy_environment_protocol_witness:
  "hook_deploy_environment misbehaving simulated_platform
     ((log_append (Log_info (''deploying environment: '' @ name (env (prepared_state)))) prepared_state)
        \<lparr>env := (env prepared_state)\<lparr>platform := Some simulated_platform\<rparr>\<rparr>) =
     (Inl (Exception ''deploy failed''),
      (log_append (Log_info (''deploying environment: '' @ name (env prepared_state))) prepared_state)
        \<lparr>env := (env prepared_state)\<lparr>platform := Some simulated_platform\<rparr>\<rparr>) \<and>
   fst (deploy_environment misbehaving simulated_platform ''1 ms'' prepared_state) =
     Inl (Exception ''deploy failed'') \<and>
   status (env (snd (deploy_environment misbehaving simulated_platform ''1 ms'' prepared_state))) =
     Prepared \<and>
   fst (hook_deploy_environment simulated simulated_platform
     ((log_append (Log_info (''deploying environment: '' @ name (env prepared_state))) prepared_state)
        \<lparr>env := (env prepared_state)\<lparr>platform := Some simulated_platform\<rparr>\<rparr>)) = Inr () \<and>
   fst (deploy_environment simulated simulated_platform ''1 ms'' prepared_state) = Inr () \<and>
   status (env (snd (deploy_environment simulated simulated_platform ''1 ms'' prepared_state))) =
     Deployed \<and>
   nodes (env (snd (deploy_environment simulated simulated_platform ''1 ms'' prepared_state))) =
     [RemoteNode None None None (Some (Features simulated_platform)),
      RemoteNode (Some ''alice'') (Some ''pw'') (Some ''alice_key'')
        (Some (Features simulated_platform)),
      LocalNode (Some (Features simulated_platform))]"
  using deploy_environment_protocol
          [of misbehaving simulated_platform prepared_state "Inl (Exception ''deploy failed'')"
              "(log_append (Log_info (''deploying environment: '' @ name (env prepared_state)))
                  prepared_state)
                 \<lparr>env := (env prepared_state)\<lparr>platform := Some simulated_platform\<rparr>\<rparr>" "''1 ms''"]
        deploy_environment_protocol
          [of simulated simulated_platform prepared_state "Inr ()"
              "(log_append (Log_info (''deploying environment: '' @ name (env prepared_state)))
                  prepared_state)
                 \<lparr>env := (env prepared_state)\<lparr>platform := Some simulated_platform\<rparr>\<rparr>" "''1 ms''"]
  by (simp add: deploy_environment_def log_append_def Let_def prepared_state_def fixtures)

section \<open>The order of the status values\<close>

lemma prepare_environment_status:
  assumes "keeps_status (hook_prepare_environment cls)"
  shows "status (env (snd (prepare_environment cls self s))) =
           (case fst (prepare_environment cls self s) of
              Inl e \<Rightarrow> status (env s) | Inr r \<Rightarrow> Prepared)"
proof -
  let ?s1 = "s\<lparr>env := (env s)\<lparr>nodes := fill_connection_info (runbook self) (nodes (env s))\<rparr>\<rparr>"
  obtain hr s2 where h: "hook_prepare_environment cls self ?s1 = (hr, s2)"
    by (cases "hook_prepare_environment cls self ?s1")
  from assms have "status (env (snd (hook_prepare_environment cls self ?s1))) = status (env ?s1)"
    unfolding keeps_status_def by blast
  with h have "status (env s2) = status (env s)" by simp
  with h show ?thesis
    by (cases hr) (simp_all add: prepare_environment_def Let_def)
qed

lemma deploy_environment_status:
  assumes "keeps_status (hook_deploy_environment cls)"
  shows "status (env (snd (deploy_environment cls self timer s))) =
           (case fst (deploy_environment cls self timer s) of
              Inl e \<Rightarrow> status (env s) | Inr r \<Rightarrow> Deployed)"
proof -
  let ?s2 = "(log_append (Log_info (''deploying environment: '' @ name (env s))) s)
               \<lparr>env := (env (log_append (Log_info (''deploying environment: '' @ name (env s))) s))
                  \<lparr>platform := Some self\<rparr>\<rparr>"
  obtain hr s3 where h: "hook_deploy_environment cls self ?s2 = (hr, s3)"
    by (cases "hook_deploy_environment cls self ?s2")
  from assms have "status (env (snd (hook_deploy_environment cls self ?s2))) = status (env ?s2)"
    unfolding keeps_status_def by blast
  with h have "status (env s3) = status (env s)" by (simp add: log_append_def)
  with h show ?thesis
    by (cases hr) (simp_all add: deploy_environment_def Let_def log_append_def)
qed

lemma delete_environment_status:
  assumes "keeps_status (hook_delete_environment cls)"
  shows "status (env (snd (delete_environment KEEP_ALWAYS cls self s))) =
           (case fst (delete_environment KEEP_ALWAYS cls self s) of
              Inl e \<Rightarrow> status (env s) | Inr r \<Rightarrow> Deleted)"
proof (cases "keep_environment (runbook self) = KEEP_ALWAYS")
  case True
  then show ?thesis by (simp add: delete_environment_def Let_def log_append_def)
next
  case False
  let ?s2 = "log_append (Log_debug ''deleting'') (s\<lparr>env := close (env s)\<rparr>)"
  obtain hr s3 where h: "hook_delete_environment cls self ?s2 = (hr, s3)"
    by (cases "hook_delete_environment cls self ?s2")
  from assms have "status (env (snd (hook_delete_environment cls self ?s2))) = status (env ?s2)"
    unfolding keeps_status_def by blast
  with h have "status (env s3) = status (env s)" by (simp add: log_append_def close_def)
  with h False show ?thesis
    by (cases hr) (simp_all add: delete_environment_def Let_def log_append_def)
qed

lemma call_status:
  assumes "keeps_status (hook_prepare_environment cls)"
      and "keeps_status (hook_deploy_environment cls)"
      and "keeps_status (hook_delete_environment cls)"
      and "call KEEP_ALWAYS cls self timer operation s = (r, s')"
  shows "status (env s') =
           (case r of Inl e \<Rightarrow> status (env s)
            | Inr u \<Rightarrow> (case operation of Prepare \<Rightarrow> Prepared | Deploy \<Rightarrow> Deployed
                        | Delete \<Rightarrow> Deleted))"
proof (cases operation)
  case Prepare
  with assms(4) prepare_environment_status [OF assms(1), of self s] show ?thesis
    by (auto split: prod.splits sum.splits)
next
  case Deploy
  with assms(4) deploy_environment_status [OF assms(2), of self timer s] show ?thesis
    by (auto split: prod.splits sum.splits)
next
  case Delete
  with assms(4) delete_environment_status [OF assms(3), of KEEP_ALWAYS self s] show ?thesis
    by (auto split: prod.splits sum.splits)
qed

lemma observed_statuses_step:
  assumes "keeps_status (hook_prepare_environment cls)"
      and "keeps_status (hook_deploy_environment cls)"
      and "keeps_status (hook_delete_environment cls)"
  shows "observed_statuses KEEP_ALWAYS cls self timer (operation # ops) s =
           status (env s) #
             (case call KEEP_ALWAYS cls self timer operation s of
                (Inl e, s') \<Rightarrow> []
              | (Inr u, s') \<Rightarrow> observed_statuses KEEP_ALWAYS cls self timer ops s')"
proof -
  obtain r s' where c: "call KEEP_ALWAYS cls self timer operation s = (r, s')"
    by (cases "call KEEP_ALWAYS cls self timer operation s")
  from call_status [OF assms c] c show ?thesis
    by (cases r) simp_all
qed

lemma prefix_lifecycle_cases:
  assumes "prefix ops [Prepare, Deploy, Delete]"
  shows "ops = [] \<or> ops = [Prepare] \<or> ops = [Prepare, Deploy] \<or> ops = [Prepare, Deploy, Delete]"
  using assms by (auto simp add: prefix_Cons)

text \<open>
  C1, as the code has it. No operation reads the status before it writes it, so the
  order is the caller's: for an environment that starts \<open>Initialized\<close>, a platform
  whose methods never set the status, and a caller that invokes prepare, deploy and
  delete in this order, each at most once, stopping at the first raise, the status
  values observed are a prefix of Initialized, Prepared, Deployed, Deleted.
\<close>

theorem lifecycle_in_order:
  assumes p: "keeps_status (hook_prepare_environment cls)"
      and d: "keeps_status (hook_deploy_environment cls)"
      and x: "keeps_status (hook_delete_environment cls)"
      and init: "status (env s) = Initialized"
      and ops: "prefix ops [Prepare, Deploy, Delete]"
  shows "prefix (observed_statuses KEEP_ALWAYS cls self timer ops s)
           [Initialized, Prepared, Deployed, Deleted]"
proof -
  note step = observed_statuses_step [OF p d x]
  note cs = call_status [OF p d x]
  obtain r1 s1 where c1: "call KEEP_ALWAYS cls self timer Prepare s = (r1, s1)"
    by (cases "call KEEP_ALWAYS cls self timer Prepare s")
  obtain r2 s2 where c2: "call KEEP_ALWAYS cls self timer Deploy s1 = (r2, s2)"
    by (cases "call KEEP_ALWAYS cls self timer Deploy s1")
  obtain r3 s3 where c3: "call KEEP_ALWAYS cls self timer Delete s2 = (r3, s3)"
    by (cases "call KEEP_ALWAYS cls self timer Delete s2")
  have st1: "status (env s1) = (case r1 of Inl e \<Rightarrow> Initialized | Inr u \<Rightarrow> Prepared)"
    using cs [OF c1] init by (cases r1) simp_all
  have st2: "status (env s2) = (case r2 of Inl e \<Rightarrow> status (env s1) | Inr u \<Rightarrow> Deployed)"
    using cs [OF c2] by (cases r2) simp_all
  have st3: "status (env s3) = (case r3 of Inl e \<Rightarrow> status (env s2) | Inr u \<Rightarrow> Deleted)"
    using cs [OF c3] by (cases r3) simp_all
  from prefix_lifecycle_cases [OF ops] show ?thesis
  proof (elim disjE)
    assume "ops = []"
    then show ?thesis using init by simp
  next
    assume "ops = [Prepare]"
    then show ?thesis using init c1 st1 step
      by (cases r1) simp_all
  next
    assume "ops = [Prepare, Deploy]"
    then show ?thesis using init c1 c2 st1 st2 step
      by (cases r1; cases r2) simp_all
  next
    assume "ops = [Prepare, Deploy, Delete]"
    then show ?thesis using init c1 c2 c3 st1 st2 st3 step
      by (cases r1; cases r2; cases r3) simp_all
  qed
qed

theorem lifecycle_in_order_witness:
  "keeps_status (hook_prepare_environment simulated) \<and>
   keeps_status (hook_deploy_environment simulated) \<and>
   keeps_status (hook_delete_environment simulated) \<and>
   status (env state0) = Initialized \<and>
   prefix [Prepare, Deploy, Delete] [Prepare, Deploy, Delete] \<and>
   observed_statuses ''always'' simulated simulated_platform ''1 ms'' [Prepare, Deploy, Delete]
     state0 = [Initialized, Prepared, Deployed, Deleted] \<and>
   prefix (observed_statuses ''always'' simulated simulated_platform ''1 ms''
             [Prepare, Deploy, Delete] state0) [Initialized, Prepared, Deployed, Deleted]"
  using lifecycle_in_order
          [of simulated state0 "[Prepare, Deploy, Delete]" "''always''" simulated_platform
              "''1 ms''"]
  by (simp add: keeps_status_def prepare_environment_def deploy_environment_def
        delete_environment_def fill_connection_info_def log_append_def close_def Let_def
        fixtures)

text \<open>
  The claim C1 as stated fails: deploy on an environment that was never prepared is not
  rejected and takes the status from \<open>Initialized\<close> to \<open>Deployed\<close>; prepare after
  deploy takes it back to \<open>Prepared\<close>.
\<close>

theorem lifecycle_order_not_enforced:
  "observed_statuses ''always'' simulated simulated_platform ''1 ms'' [Deploy] state0 =
     [Initialized, Deployed] \<and>
   \<not> prefix (observed_statuses ''always'' simulated simulated_platform ''1 ms'' [Deploy] state0)
       [Initialized, Prepared, Deployed, Deleted] \<and>
   observed_statuses ''always'' simulated simulated_platform ''1 ms''
     [Prepare, Deploy, Prepare] state0 = [Initialized, Prepared, Deployed, Prepared]"
  by (simp add: prepare_environment_def deploy_environment_def
        delete_environment_def fill_connection_info_def log_append_def close_def Let_def
        fixtures)

end
